theory Spec2Isabelle
  imports Main "HOL-Library.Word"
begin

section \<open>Python values\<close>

text \<open>
  A decoded JSON payload, as Python holds it: \<open>None\<close>, a bool, an int, a float (kept
  by its 64-bit pattern, since no handler computes with it), a str, a list, or a dict with
  str keys. A dict is an association list in insertion order; a Python dict has no
  duplicate keys, and the operations below behave on an association list with duplicates
  as on its first binding of each key. A str is the list of its characters; every
  literal of the source is ASCII.
\<close>

datatype pyval =
    PNone
  | PBool bool
  | PInt int
  | PFloat "64 word"
  | PStr string
  | PList "pyval list"
  | PDict "(string \<times> pyval) list"

section \<open>Request and Response\<close>

text \<open>
  Modelled from the spec: the Request value object (class \<open>Request\<close> of
  \<open>request.py\<close>), holding the HTTP method, the endpoint path, the optional query
  parameters, the optional headers and the optional body. Field \<open>http_method\<close> is
  the source's \<open>method\<close>, which the source gives as the lower-case name of the HTTP
  verb; field \<open>data\<close> is the body, under the keyword the source passes it by; an
  argument the source leaves out is \<open>None\<close>.
\<close>

record request =
  http_method :: string
  endpoint :: string
  params :: "(string \<times> pyval) list option"
  headers :: "(string \<times> string) list option"
  data :: "pyval option"

text \<open>
  Modelled from the spec: the Response (class \<open>Response\<close> of \<open>response.py\<close>), with
  its status code, its success flag, its decoded body and its raw headers.
\<close>

record response =
  status_code :: int
  is_success :: bool
  body :: pyval
  raw_headers :: "(string \<times> string) list"

section \<open>Exceptions\<close>

text \<open>
  The eight typed errors of \<open>exceptions.py\<close> that \<open>cluster.py\<close> raises, each
  constructed from the Response and the Request, and the built-in exceptions that
  subscripting, \<open>pop\<close> and iteration raise in Python.
\<close>

datatype exn =
    ClusterServerIDError response request
  | ClusterServerRoleError response request
  | ClusterServerVersionError response request
  | ClusterServerEngineError response request
  | ClusterServerStatisticsError response request
  | ClusterHealthError response request
  | ClusterMaintenanceModeError response request
  | ClusterEndpointsError response request
  | KeyError string
  | TypeError
  | AttributeError

section \<open>The Python operations the handlers use\<close>

text \<open>\<open>obj[key]\<close> for a str key: only a dict holding the key answers.\<close>

fun getitem :: "pyval \<Rightarrow> string \<Rightarrow> exn + pyval" where
  "getitem (PDict kvs) key =
     (case map_of kvs key of None \<Rightarrow> Inl (KeyError key) | Some v \<Rightarrow> Inr v)"
| "getitem _ key = Inl TypeError"

text \<open>
  \<open>obj.pop(key)\<close> for a str key, returning the outcome and the object afterwards.
  A dict holding the key loses it; a dict without it raises \<open>KeyError\<close>; a list
  rejects the str index with \<open>TypeError\<close>; every other value has no attribute
  \<open>pop\<close>. Only the first case changes the object.
\<close>

fun pop :: "pyval \<Rightarrow> string \<Rightarrow> (exn + pyval) \<times> pyval" where
  "pop (PDict kvs) key =
     (case map_of kvs key of
        None \<Rightarrow> (Inl (KeyError key), PDict kvs)
      | Some v \<Rightarrow> (Inr v, PDict (filter (\<lambda>kv. fst kv \<noteq> key) kvs)))"
| "pop (PList xs) key = (Inl TypeError, PList xs)"
| "pop obj key = (Inl AttributeError, obj)"

text \<open>
  The items \<open>for item in obj\<close> visits: the elements of a list, the keys of a dict,
  the one-character strs of a str; nothing else is iterable.
\<close>

fun iter :: "pyval \<Rightarrow> exn + pyval list" where
  "iter (PList xs) = Inr xs"
| "iter (PDict kvs) = Inr (map (\<lambda>kv. PStr (fst kv)) kvs)"
| "iter (PStr s) = Inr (map (\<lambda>c. PStr [c]) s)"
| "iter _ = Inl TypeError"

text \<open>
  The comprehension \<open>[item[key] for item in items]\<close>: the items in order, stopping at
  the first exception.
\<close>

fun subscript_each :: "pyval list \<Rightarrow> string \<Rightarrow> exn + pyval list" where
  "subscript_each [] key = Inr []"
| "subscript_each (item # items) key =
     (case getitem item key of
        Inl e \<Rightarrow> Inl e
      | Inr v \<Rightarrow> (case subscript_each items key of
                   Inl e \<Rightarrow> Inl e
                 | Inr vs \<Rightarrow> Inr (v # vs)))"

text \<open>\<open>'"{}"'.format(mode)\<close> for a str \<open>mode\<close>: the mode between two double quotes.\<close>

definition format_quoted :: "string \<Rightarrow> string" where
  \<open>format_quoted mode = ''"'' @ mode @ ''"''\<close>

section \<open>The response handlers of \<open>cluster.py\<close>\<close>

text \<open>
  A response handler is the closure a method defines: it captures the method's
  \<open>request\<close> and maps a Response to a returned value (\<open>Inr\<close>) or a raised exception
  (\<open>Inl\<close>). The Response is a mutable object the handler holds a reference to, so the
  handler also yields the Response as it is afterwards.
\<close>

type_synonym handler = "response \<Rightarrow> (exn + pyval) \<times> response"

definition server_id_response_handler :: "request \<Rightarrow> handler" where
  "server_id_response_handler request resp =
     (if is_success resp then (getitem (body resp) ''id'', resp)
      else (Inl (ClusterServerIDError resp request), resp))"

definition server_role_response_handler :: "request \<Rightarrow> handler" where
  "server_role_response_handler request resp =
     (if is_success resp then (getitem (body resp) ''role'', resp)
      else (Inl (ClusterServerRoleError resp request), resp))"

definition server_version_response_handler :: "request \<Rightarrow> handler" where
  "server_version_response_handler request resp =
     (if is_success resp then (Inr (body resp), resp)
      else (Inl (ClusterServerVersionError resp request), resp))"

definition server_engine_response_handler :: "request \<Rightarrow> handler" where
  "server_engine_response_handler request resp =
     (if is_success resp then (Inr (body resp), resp)
      else (Inl (ClusterServerEngineError resp request), resp))"

definition server_statistics_response_handler :: "request \<Rightarrow> handler" where
  "server_statistics_response_handler request resp =
     (if is_success resp then (Inr (body resp), resp)
      else (Inl (ClusterServerStatisticsError resp request), resp))"

text \<open>
  The health handler pops \<open>'error'\<close>, then \<open>'code'\<close>, from \<open>resp.body\<close> itself and
  returns that same body; an exception of the first \<open>pop\<close> skips the second, and an
  exception of the second leaves the first removal in place.
\<close>

definition health_response_handler :: "request \<Rightarrow> handler" where
  "health_response_handler request resp =
     (if is_success resp then
        (case pop (body resp) ''error'' of
           (Inl e, b1) \<Rightarrow> (Inl e, resp\<lparr>body := b1\<rparr>)
         | (Inr _, b1) \<Rightarrow>
             (case pop b1 ''code'' of
                (Inl e, b2) \<Rightarrow> (Inl e, resp\<lparr>body := b2\<rparr>)
              | (Inr _, b2) \<Rightarrow> (Inr b2, resp\<lparr>body := b2\<rparr>)))
      else (Inl (ClusterHealthError resp request), resp))"

definition toggle_maintenance_mode_response_handler :: "request \<Rightarrow> handler" where
  "toggle_maintenance_mode_response_handler request resp =
     (if is_success resp then (Inr (body resp), resp)
      else (Inl (ClusterMaintenanceModeError resp request), resp))"

definition endpoints_response_handler :: "request \<Rightarrow> handler" where
  "endpoints_response_handler request resp =
     (if \<not> is_success resp then (Inl (ClusterEndpointsError resp request), resp)
      else
        (case getitem (body resp) ''endpoints'' of
           Inl e \<Rightarrow> (Inl e, resp)
         | Inr eps \<Rightarrow>
             (case iter eps of
                Inl e \<Rightarrow> (Inl e, resp)
              | Inr items \<Rightarrow>
                  (case subscript_each items ''endpoint'' of
                     Inl e \<Rightarrow> (Inl e, resp)
                   | Inr vs \<Rightarrow> (Inr (PList vs), resp)))))"

section \<open>The methods of class \<open>Cluster\<close>\<close>

text \<open>
  \<open>Request(method=..., endpoint=..., params=..., data=...)\<close> as the source calls it;
  no call of \<open>cluster.py\<close> passes headers.
\<close>

definition Request ::
  "string \<Rightarrow> string \<Rightarrow> (string \<times> pyval) list option \<Rightarrow> pyval option \<Rightarrow> request" where
  "Request m e p d = \<lparr>http_method = m, endpoint = e, params = p, headers = None, data = d\<rparr>"

text \<open>
  Each method takes \<open>self._execute\<close> as the parameter \<open>execute\<close>: whatever it answers
  for the request and the handler, once awaited, is what the method returns. Its
  result type is left open, so that an executor may answer with a value, a job, or a
  function of its own state.
\<close>

definition server_id :: "(request \<Rightarrow> handler \<Rightarrow> 'a) \<Rightarrow> 'a" where
  "server_id execute =
     (let request = Request ''get'' ''/_admin/server/id'' None None
      in execute request (server_id_response_handler request))"


definition server_version :: "(request \<Rightarrow> handler \<Rightarrow> 'a) \<Rightarrow> string \<Rightarrow> 'a" where
  "server_version execute server_id' =
     (let request = Request ''get'' ''/_admin/cluster/nodeVersion''
                      (Some [(''ServerID'', PStr server_id')]) None
      in execute request (server_version_response_handler request))"

definition server_engine :: "(request \<Rightarrow> handler \<Rightarrow> 'a) \<Rightarrow> string \<Rightarrow> 'a" where
  "server_engine execute server_id' =
     (let request = Request ''get'' ''/_admin/cluster/nodeEngine''
                      (Some [(''ServerID'', PStr server_id')]) None
      in execute request (server_engine_response_handler request))"

definition server_statistics :: "(request \<Rightarrow> handler \<Rightarrow> 'a) \<Rightarrow> string \<Rightarrow> 'a" where
  "server_statistics execute server_id' =
     (let request = Request ''get'' ''/_admin/cluster/nodeStatistics''
                      (Some [(''ServerID'', PStr server_id')]) None
      in execute request (server_statistics_response_handler request))"

definition health :: "(request \<Rightarrow> handler \<Rightarrow> 'a) \<Rightarrow> 'a" where
  "health execute =
     (let request = Request ''get'' ''/_admin/cluster/health'' None None
      in execute request (health_response_handler request))"

definition toggle_maintenance_mode :: "(request \<Rightarrow> handler \<Rightarrow> 'a) \<Rightarrow> string \<Rightarrow> 'a" where
  "toggle_maintenance_mode execute mode =
     (let request = Request ''put'' ''/_admin/cluster/maintenance'' None
                      (Some (PStr (format_quoted mode)))
      in execute request (toggle_maintenance_mode_response_handler request))"

definition endpoints :: "(request \<Rightarrow> handler \<Rightarrow> 'a) \<Rightarrow> 'a" where
  "endpoints execute =
     (let request = Request ''get'' ''/_api/cluster/endpoints'' None None
      in execute request (endpoints_response_handler request))"

section \<open>Executors\<close>

text \<open>
  Modelled from the spec: the immediate Executor of \<open>executor.py\<close>, over a connection
  that answers the request with the Response \<open>resp\<close>. It invokes the handler with
  that Response exactly once and returns whatever the handler returns or raises.
\<close>

definition execute_against :: "response \<Rightarrow> request \<Rightarrow> handler \<Rightarrow> exn + pyval" where
  "execute_against resp request handler = fst (handler resp)"

text \<open>
  An executor that keeps a log of the requests it is handed: every call appends its
  request to the log and answers as the executor \<open>execute\<close> does.
\<close>

definition recording ::
  "(request \<Rightarrow> handler \<Rightarrow> 'r) \<Rightarrow> request \<Rightarrow> handler \<Rightarrow> request list \<Rightarrow> 'r \<times> request list" where
  "recording execute request handler log = (execute request handler, log @ [request])"

text \<open>
  An executor that answers with the request it was handed and never runs the handler:
  it shows what a method sends.
\<close>

definition sent_request :: "request \<Rightarrow> handler \<Rightarrow> request" where
  "sent_request request handler = request"

section \<open>The methods as coroutines over the executor's state\<close>

text \<open>
  An executor has state of its own (a connection, a queue of pending requests, an open
  transaction), and \<open>await self._execute(request, response_handler)\<close> is a step on
  it: from the state before the call to the awaited answer and the state after. Here
  each \<open>async def\<close> of the class is written with that state threaded through its
  statements in the order the source takes them: it builds the request, defines the
  handler, awaits the one call and returns what the call answered. A second call, a
  retry or a loop would be a further step, on the state the first call left.
\<close>

type_synonym ('w, 'r) executor = "request \<Rightarrow> handler \<Rightarrow> 'w \<Rightarrow> 'r \<times> 'w"

definition server_id_async :: "('w, 'r) executor \<Rightarrow> 'w \<Rightarrow> 'r \<times> 'w" where
  "server_id_async execute w =
     (let request = Request ''get'' ''/_admin/server/id'' None None;
          (result, w') = execute request (server_id_response_handler request) w
      in (result, w'))"

definition server_role_async :: "('w, 'r) executor \<Rightarrow> 'w \<Rightarrow> 'r \<times> 'w" where
  "server_role_async execute w =
     (let request = Request ''get'' ''/_admin/server/role'' None None;
          (result, w') = execute request (server_role_response_handler request) w
      in (result, w'))"

definition server_version_async :: "('w, 'r) executor \<Rightarrow> string \<Rightarrow> 'w \<Rightarrow> 'r \<times> 'w" where
  "server_version_async execute server_id' w =
     (let request = Request ''get'' ''/_admin/cluster/nodeVersion''
                      (Some [(''ServerID'', PStr server_id')]) None;
          (result, w') = execute request (server_version_response_handler request) w
      in (result, w'))"

definition server_engine_async :: "('w, 'r) executor \<Rightarrow> string \<Rightarrow> 'w \<Rightarrow> 'r \<times> 'w" where
  "server_engine_async execute server_id' w =
     (let request = Request ''get'' ''/_admin/cluster/nodeEngine''
                      (Some [(''ServerID'', PStr server_id')]) None;
          (result, w') = execute request (server_engine_response_handler request) w
      in (result, w'))"

definition server_statistics_async :: "('w, 'r) executor \<Rightarrow> string \<Rightarrow> 'w \<Rightarrow> 'r \<times> 'w" where
  "server_statistics_async execute server_id' w =
     (let request = Request ''get'' ''/_admin/cluster/nodeStatistics''
                      (Some [(''ServerID'', PStr server_id')]) None;
          (result, w') = execute request (server_statistics_response_handler request) w
      in (result, w'))"

definition health_async :: "('w, 'r) executor \<Rightarrow> 'w \<Rightarrow> 'r \<times> 'w" where
  "health_async execute w =
     (let request = Request ''get'' ''/_admin/cluster/health'' None None;
          (result, w') = execute request (health_response_handler request) w
      in (result, w'))"

definition toggle_maintenance_mode_async :: "('w, 'r) executor \<Rightarrow> string \<Rightarrow> 'w \<Rightarrow> 'r \<times> 'w" where
  "toggle_maintenance_mode_async execute mode w =
     (let request = Request ''put'' ''/_admin/cluster/maintenance'' None
                      (Some (PStr (format_quoted mode)));
          (result, w') = execute request (toggle_maintenance_mode_response_handler request) w
      in (result, w'))"

definition endpoints_async :: "('w, 'r) executor \<Rightarrow> 'w \<Rightarrow> 'r \<times> 'w" where
  "endpoints_async execute w =
     (let request = Request ''get'' ''/_api/cluster/endpoints'' None None;
          (result, w') = execute request (endpoints_response_handler request) w
      in (result, w'))"

text \<open>
  An executor that counts: beside the state of the executor \<open>execute\<close> it keeps the
  list of the requests it was called with, and every call of it is one call of
  \<open>execute\<close> and one request more at the end of that list.
\<close>

definition logging :: "('w, 'r) executor \<Rightarrow> (request list \<times> 'w, 'r) executor" where
  "logging execute request handler s =
     (let (result, w') = execute request handler (snd s)
      in (result, (fst s @ [request], w')))"

section \<open>Predicates of the specification\<close>

text \<open>The exceptions that are none of the typed errors of \<open>exceptions.py\<close>.\<close>

fun builtin_error :: "exn \<Rightarrow> bool" where
  "builtin_error (KeyError key) = True"
| "builtin_error TypeError = True"
| "builtin_error AttributeError = True"
| "builtin_error _ = False"

text \<open>An outcome is a returned value, or a raised built-in exception.\<close>

fun returns :: "exn + 'a \<Rightarrow> bool" where
  "returns (Inr v) = True"
| "returns (Inl e) = False"

fun raises_builtin :: "exn + 'a \<Rightarrow> bool" where
  "raises_builtin (Inl e) = builtin_error e"
| "raises_builtin (Inr v) = False"

text \<open>The value is a mapping that holds the key.\<close>

fun has_key :: "pyval \<Rightarrow> string \<Rightarrow> bool" where
  "has_key (PDict kvs) key = (map_of kvs key \<noteq> None)"
| "has_key _ key = False"

text \<open>
  The body the endpoints handler expects: a mapping whose key \<open>'endpoints'\<close> is bound
  to a list of mappings that each hold the key \<open>'endpoint'\<close>.
\<close>

fun endpoints_shape :: "pyval \<Rightarrow> bool" where
  "endpoints_shape (PDict kvs) =
     (case map_of kvs ''endpoints'' of
        Some (PList items) \<Rightarrow> list_all (\<lambda>item. has_key item ''endpoint'') items
      | _ \<Rightarrow> False)"
| "endpoints_shape _ = False"

text \<open>A mapping without the two bookkeeping keys of a health body.\<close>

definition strip_bookkeeping :: "(string \<times> pyval) list \<Rightarrow> (string \<times> pyval) list" where
  "strip_bookkeeping kvs = filter (\<lambda>kv. fst kv \<noteq> ''error'' \<and> fst kv \<noteq> ''code'') kvs"

section \<open>Unfolding the handlers and the methods\<close>

lemmas handler_defs =
  server_id_response_handler_def server_role_response_handler_def
  server_version_response_handler_def server_engine_response_handler_def
  server_statistics_response_handler_def health_response_handler_def
  toggle_maintenance_mode_response_handler_def endpoints_response_handler_def


lemma failure_outcome:
  assumes "\<not> is_success resp"
  shows "server_id_response_handler req resp = (Inl (ClusterServerIDError resp req), resp)"
    and "server_role_response_handler req resp = (Inl (ClusterServerRoleError resp req), resp)"
    and "server_version_response_handler req resp =
           (Inl (ClusterServerVersionError resp req), resp)"
    and "server_engine_response_handler req resp =
           (Inl (ClusterServerEngineError resp req), resp)"
    and "server_statistics_response_handler req resp =
           (Inl (ClusterServerStatisticsError resp req), resp)"
    and "health_response_handler req resp = (Inl (ClusterHealthError resp req), resp)"
    and "toggle_maintenance_mode_response_handler req resp =
           (Inl (ClusterMaintenanceModeError resp req), resp)"
    and "endpoints_response_handler req resp = (Inl (ClusterEndpointsError resp req), resp)"
  using assms by (simp_all add: handler_defs)

lemma passthrough_outcome:
  assumes "is_success resp"
  shows "server_version_response_handler req resp = (Inr (body resp), resp)"
    and "server_engine_response_handler req resp = (Inr (body resp), resp)"
    and "server_statistics_response_handler req resp = (Inr (body resp), resp)"
    and "toggle_maintenance_mode_response_handler req resp = (Inr (body resp), resp)"
  using assms by (simp_all add: handler_defs)

section \<open>Failure responses\<close>



section \<open>What the handlers do to the Response\<close>

lemma filter_absent: "map_of xs key = None \<Longrightarrow> filter (\<lambda>kv. fst kv \<noteq> key) xs = xs"
  by (induction xs) (auto split: if_splits)

lemma pop_not_dict: "(\<And>kvs. obj \<noteq> PDict kvs) \<Longrightarrow> pop obj key = (fst (pop obj key), obj)"
  by (cases obj) auto

lemma health_keeps_fields:
  "status_code (snd (health_response_handler req resp)) = status_code resp"
  "is_success (snd (health_response_handler req resp)) = is_success resp"
  "raw_headers (snd (health_response_handler req resp)) = raw_headers resp"
  by (auto simp: health_response_handler_def split: prod.splits sum.splits)

lemma health_body_dict:
  assumes "is_success resp" and "body resp = PDict kvs"
  shows "body (snd (health_response_handler req resp)) =
           PDict (if map_of kvs ''error'' = None then kvs else strip_bookkeeping kvs)"
proof (cases "map_of kvs ''error''")
  case None
  with assms show ?thesis by (simp add: health_response_handler_def)
next
  case (Some v)
  have two: "filter (\<lambda>kv. fst kv \<noteq> ''code'') (filter (\<lambda>kv. fst kv \<noteq> ''error'') kvs) =
               strip_bookkeeping kvs"
    by (simp add: strip_bookkeeping_def conj_commute)
  show ?thesis
  proof (cases "map_of (filter (\<lambda>kv. fst kv \<noteq> ''error'') kvs) ''code''")
    case None
    then have "filter (\<lambda>kv. fst kv \<noteq> ''code'') (filter (\<lambda>kv. fst kv \<noteq> ''error'') kvs) =
                 filter (\<lambda>kv. fst kv \<noteq> ''error'') kvs"
      by (rule filter_absent)
    with two None Some assms show ?thesis by (simp add: health_response_handler_def)
  next
    case Some': (Some w)
    with two Some assms show ?thesis by (simp add: health_response_handler_def)
  qed
qed

lemma health_not_dict:
  assumes "\<And>kvs. body resp \<noteq> PDict kvs"
  shows "snd (health_response_handler req resp) = resp"
proof -
  from assms have "pop (body resp) ''error'' = (fst (pop (body resp) ''error''), body resp)"
    by (rule pop_not_dict)
  moreover from assms have "\<exists>e. fst (pop (body resp) ''error'') = Inl e"
    by (cases "body resp") auto
  ultimately show ?thesis
    by (auto simp: health_response_handler_def split: prod.splits sum.splits)
qed

text \<open>
  C2, as the code has it. Seven handlers leave the Response as they found it, for
  every Response. The health handler leaves it so when \<open>is_success\<close> is false or the
  body is no mapping; otherwise it changes the body alone, in place: a mapping that
  holds \<open>'error'\<close> loses \<open>'error'\<close> and \<open>'code'\<close>, a mapping without \<open>'error'\<close> stays.
\<close>

theorem handlers_frame:
  "snd (server_id_response_handler req resp) = resp
   \<and> snd (server_role_response_handler req resp) = resp
   \<and> snd (server_version_response_handler req resp) = resp
   \<and> snd (server_engine_response_handler req resp) = resp
   \<and> snd (server_statistics_response_handler req resp) = resp
   \<and> snd (toggle_maintenance_mode_response_handler req resp) = resp
   \<and> snd (endpoints_response_handler req resp) = resp
   \<and> (\<not> is_success resp \<longrightarrow> snd (health_response_handler req resp) = resp)
   \<and> ((\<forall>kvs. body resp \<noteq> PDict kvs) \<longrightarrow> snd (health_response_handler req resp) = resp)
   \<and> status_code (snd (health_response_handler req resp)) = status_code resp
   \<and> is_success (snd (health_response_handler req resp)) = is_success resp
   \<and> raw_headers (snd (health_response_handler req resp)) = raw_headers resp
   \<and> (\<forall>kvs. is_success resp \<and> body resp = PDict kvs \<longrightarrow>
         body (snd (health_response_handler req resp)) =
           PDict (if map_of kvs ''error'' = None then kvs else strip_bookkeeping kvs))"
proof -
  have seven:
    "snd (server_id_response_handler req resp) = resp"
    "snd (server_role_response_handler req resp) = resp"
    "snd (server_version_response_handler req resp) = resp"
    "snd (server_engine_response_handler req resp) = resp"
    "snd (server_statistics_response_handler req resp) = resp"
    "snd (toggle_maintenance_mode_response_handler req resp) = resp"
    "snd (endpoints_response_handler req resp) = resp"
    by (simp_all add: handler_defs split: sum.splits)
  have failed: "\<not> is_success resp \<longrightarrow> snd (health_response_handler req resp) = resp"
    by (simp add: failure_outcome)
  have other: "(\<forall>kvs. body resp \<noteq> PDict kvs) \<longrightarrow> snd (health_response_handler req resp) = resp"
    using health_not_dict by blast
  have dict: "\<forall>kvs. is_success resp \<and> body resp = PDict kvs \<longrightarrow>
         body (snd (health_response_handler req resp)) =
           PDict (if map_of kvs ''error'' = None then kvs else strip_bookkeeping kvs)"
    using health_body_dict by blast
  from seven failed other dict health_keeps_fields [of req resp] show ?thesis
    by blast
qed

text \<open>
  The theorem at a failed answer, at a successful answer whose body is a list, and at
  the successful health answer \<open>{error: false, code: 200, Node1: {}}\<close>.
\<close>

theorem handlers_frame_witness:
  "snd (health_response_handler (Request ''get'' ''/_admin/cluster/health'' None None)
      \<lparr>status_code = 503, is_success = False, body = PDict [(''error'', PBool True)],
       raw_headers = []\<rparr>) =
     \<lparr>status_code = 503, is_success = False, body = PDict [(''error'', PBool True)],
      raw_headers = []\<rparr>
   \<and> snd (health_response_handler (Request ''get'' ''/_admin/cluster/health'' None None)
      \<lparr>status_code = 200, is_success = True, body = PList [], raw_headers = []\<rparr>) =
     \<lparr>status_code = 200, is_success = True, body = PList [], raw_headers = []\<rparr>
   \<and> body (snd (health_response_handler (Request ''get'' ''/_admin/cluster/health'' None None)
      \<lparr>status_code = 200, is_success = True,
       body = PDict [(''error'', PBool False), (''code'', PInt 200), (''Node1'', PDict [])],
       raw_headers = []\<rparr>)) = PDict [(''Node1'', PDict [])]"
proof -
  let ?req = "Request ''get'' ''/_admin/cluster/health'' None None"
  let ?failed = "\<lparr>status_code = 503, is_success = False,
                  body = PDict [(''error'', PBool True)], raw_headers = []\<rparr>"
  let ?listed = "\<lparr>status_code = 200, is_success = True, body = PList [], raw_headers = []\<rparr>"
  let ?kvs = "[(''error'', PBool False), (''code'', PInt 200), (''Node1'', PDict [])]"
  let ?ok = "\<lparr>status_code = 200, is_success = True, body = PDict ?kvs, raw_headers = []\<rparr>"
  have a: "snd (health_response_handler ?req ?failed) = ?failed"
    using handlers_frame [of ?req ?failed] by simp
  have b: "snd (health_response_handler ?req ?listed) = ?listed"
    using handlers_frame [of ?req ?listed] by simp
  have "is_success ?ok \<and> body ?ok = PDict ?kvs" by simp
  with handlers_frame [of ?req ?ok]
  have "body (snd (health_response_handler ?req ?ok)) =
          PDict (if map_of ?kvs ''error'' = None then ?kvs else strip_bookkeeping ?kvs)"
    by blast
  then have c: "body (snd (health_response_handler ?req ?ok)) = PDict [(''Node1'', PDict [])]"
    by (simp add: strip_bookkeeping_def)
  from a b c show ?thesis by simp
qed

text \<open>
  The claim as the spec states it fails: the health handler, given the successful
  answer \<open>{error: false, code: 200, Node1: {}}\<close>, leaves a Response whose body has
  lost two keys.
\<close>

theorem health_mutates_response:
  "snd (health_response_handler (Request ''get'' ''/_admin/cluster/health'' None None)
      \<lparr>status_code = 200, is_success = True,
       body = PDict [(''error'', PBool False), (''code'', PInt 200), (''Node1'', PDict [])],
       raw_headers = []\<rparr>) \<noteq>
     \<lparr>status_code = 200, is_success = True,
      body = PDict [(''error'', PBool False), (''code'', PInt 200), (''Node1'', PDict [])],
      raw_headers = []\<rparr>"
  by (simp add: health_response_handler_def)

section \<open>The outcomes of the handlers\<close>

lemma getitem_has_key:
  "has_key obj key \<Longrightarrow> returns (getitem obj key)"
  "\<not> has_key obj key \<Longrightarrow> raises_builtin (getitem obj key)"
  by (cases obj; auto)+

lemma iter_outcome: "returns (iter obj) \<or> raises_builtin (iter obj)"
  by (cases obj) auto

lemma subscript_each_outcome:
  "returns (subscript_each items key) \<or> raises_builtin (subscript_each items key)"
proof (induction items)
  case Nil
  show ?case by simp
next
  case (Cons item items)
  show ?case
  proof (cases "has_key item key")
    case True
    then obtain v where "getitem item key = Inr v"
      using getitem_has_key(1) [of item key] by (cases "getitem item key") auto
    with Cons.IH show ?thesis by (auto split: sum.splits)
  next
    case False
    then obtain e where "getitem item key = Inl e" and "builtin_error e"
      using getitem_has_key(2) [of item key] by (cases "getitem item key") auto
    then show ?thesis by simp
  qed
qed

lemma subscript_each_returns:
  "list_all (\<lambda>item. has_key item key) items \<Longrightarrow> returns (subscript_each items key)"
proof (induction items)
  case Nil
  show ?case by simp
next
  case (Cons item items)
  then obtain v where "getitem item key = Inr v"
    using getitem_has_key(1) [of item key] by (cases "getitem item key") auto
  with Cons show ?case by (auto split: sum.splits)
qed

lemma map_of_filter_other:
  "key \<noteq> key' \<Longrightarrow> map_of (filter (\<lambda>kv. fst kv \<noteq> key') xs) key = map_of xs key"
  by (induction xs) auto

lemma health_outcome:
  assumes "is_success resp"
  shows "if has_key (body resp) ''error'' \<and> has_key (body resp) ''code''
         then returns (fst (health_response_handler req resp))
         else raises_builtin (fst (health_response_handler req resp))"
proof (cases "body resp")
  case (PDict kvs)
  have code: "map_of (filter (\<lambda>kv. fst kv \<noteq> ''error'') kvs) ''code'' = map_of kvs ''code''"
    by (rule map_of_filter_other) simp
  from assms PDict show ?thesis
    by (auto simp: health_response_handler_def code split: option.splits)
qed (use assms in \<open>simp_all add: health_response_handler_def\<close>)

lemma endpoints_outcome:
  assumes "is_success resp"
  shows "returns (fst (endpoints_response_handler req resp))
         \<or> raises_builtin (fst (endpoints_response_handler req resp))"
proof (cases "getitem (body resp) ''endpoints''")
  case (Inl e)
  then have "builtin_error e"
    using getitem_has_key [of "body resp" "''endpoints''"] by (cases "has_key (body resp) ''endpoints''") auto
  with Inl assms show ?thesis by (simp add: endpoints_response_handler_def)
next
  case (Inr eps)
  show ?thesis
  proof (cases "iter eps")
    case Inl': (Inl e)
    then have "builtin_error e" using iter_outcome [of eps] by simp
    with Inl' Inr assms show ?thesis by (simp add: endpoints_response_handler_def)
  next
    case Inr': (Inr items)
    with Inr assms subscript_each_outcome [of items "''endpoint''"] show ?thesis
      by (auto simp: endpoints_response_handler_def split: sum.splits)
  qed
qed

lemma endpoints_returns:
  assumes "is_success resp" and "endpoints_shape (body resp)"
  shows "returns (fst (endpoints_response_handler req resp))"
proof -
  from assms(2) obtain kvs items where
    b: "body resp = PDict kvs" and e: "map_of kvs ''endpoints'' = Some (PList items)"
    and all: "list_all (\<lambda>item. has_key item ''endpoint'') items"
    by (cases "body resp") (auto split: option.splits pyval.splits)
  from all have "returns (subscript_each items ''endpoint'')"
    by (rule subscript_each_returns)
  with assms(1) b e show ?thesis
    by (auto simp: endpoints_response_handler_def split: sum.splits)
qed

text \<open>
  C3, as the code has it. Every handler yields one outcome for every Response. With
  \<open>is_success\<close> false it is the operation's typed error. With \<open>is_success\<close> true, the
  handlers of server_version, server_engine, server_statistics and
  toggle_maintenance_mode return the body whatever its shape; those of server_id and
  server_role return exactly when the body is a mapping holding \<open>'id'\<close>, respectively
  \<open>'role'\<close>, and the health handler exactly when it is a mapping holding \<open>'error'\<close>
  and \<open>'code'\<close>; the endpoints handler returns when the body maps \<open>'endpoints'\<close> to
  a list of mappings that each hold \<open>'endpoint'\<close>. Where one of these four does not
  return, it raises a built-in KeyError, TypeError or AttributeError, not the typed
  error.
\<close>

theorem handlers_outcomes:
  "(\<not> is_success resp \<longrightarrow>
      fst (server_id_response_handler req resp) = Inl (ClusterServerIDError resp req)
      \<and> fst (server_role_response_handler req resp) = Inl (ClusterServerRoleError resp req)
      \<and> fst (server_version_response_handler req resp) =
          Inl (ClusterServerVersionError resp req)
      \<and> fst (server_engine_response_handler req resp) =
          Inl (ClusterServerEngineError resp req)
      \<and> fst (server_statistics_response_handler req resp) =
          Inl (ClusterServerStatisticsError resp req)
      \<and> fst (health_response_handler req resp) = Inl (ClusterHealthError resp req)
      \<and> fst (toggle_maintenance_mode_response_handler req resp) =
          Inl (ClusterMaintenanceModeError resp req)
      \<and> fst (endpoints_response_handler req resp) = Inl (ClusterEndpointsError resp req))
   \<and> (is_success resp \<longrightarrow>
      fst (server_version_response_handler req resp) = Inr (body resp)
      \<and> fst (server_engine_response_handler req resp) = Inr (body resp)
      \<and> fst (server_statistics_response_handler req resp) = Inr (body resp)
      \<and> fst (toggle_maintenance_mode_response_handler req resp) = Inr (body resp)
      \<and> (if has_key (body resp) ''id''
          then returns (fst (server_id_response_handler req resp))
          else raises_builtin (fst (server_id_response_handler req resp)))
      \<and> (if has_key (body resp) ''role''
          then returns (fst (server_role_response_handler req resp))
          else raises_builtin (fst (server_role_response_handler req resp)))
      \<and> (if has_key (body resp) ''error'' \<and> has_key (body resp) ''code''
          then returns (fst (health_response_handler req resp))
          else raises_builtin (fst (health_response_handler req resp)))
      \<and> (returns (fst (endpoints_response_handler req resp))
          \<or> raises_builtin (fst (endpoints_response_handler req resp)))
      \<and> (endpoints_shape (body resp) \<longrightarrow>
            returns (fst (endpoints_response_handler req resp))))"
proof (cases "is_success resp")
  case False
  then show ?thesis by (simp add: failure_outcome)
next
  case True
  have ident: "if has_key (body resp) ''id''
          then returns (fst (server_id_response_handler req resp))
          else raises_builtin (fst (server_id_response_handler req resp))"
    using True getitem_has_key [of "body resp" "''id''"]
    by (simp add: server_id_response_handler_def)
  have role: "if has_key (body resp) ''role''
          then returns (fst (server_role_response_handler req resp))
          else raises_builtin (fst (server_role_response_handler req resp))"
    using True getitem_has_key [of "body resp" "''role''"]
    by (simp add: server_role_response_handler_def)
  from True ident role health_outcome [OF True, of req] endpoints_outcome [OF True, of req]
    endpoints_returns [OF True, of req]
  show ?thesis by (simp add: passthrough_outcome)
qed

text \<open>
  The theorem at a failed answer, at a successful answer with the empty mapping for
  its body, and at a successful answer listing one endpoint.
\<close>

theorem handlers_outcomes_witness:
  "fst (endpoints_response_handler (Request ''get'' ''/_api/cluster/endpoints'' None None)
      \<lparr>status_code = 500, is_success = False, body = PDict [], raw_headers = []\<rparr>) =
     Inl (ClusterEndpointsError
           \<lparr>status_code = 500, is_success = False, body = PDict [], raw_headers = []\<rparr>
           (Request ''get'' ''/_api/cluster/endpoints'' None None))
   \<and> raises_builtin (fst (server_id_response_handler
        (Request ''get'' ''/_admin/server/id'' None None)
        \<lparr>status_code = 200, is_success = True, body = PDict [], raw_headers = []\<rparr>))
   \<and> fst (server_version_response_handler
        (Request ''get'' ''/_admin/server/id'' None None)
        \<lparr>status_code = 200, is_success = True, body = PDict [], raw_headers = []\<rparr>) =
       Inr (PDict [])
   \<and> returns (fst (endpoints_response_handler
        (Request ''get'' ''/_api/cluster/endpoints'' None None)
        \<lparr>status_code = 200, is_success = True,
         body = PDict [(''endpoints'', PList [PDict [(''endpoint'', PStr ''tcp://a:1'')]])],
         raw_headers = []\<rparr>))"
proof -
  let ?failed = "\<lparr>status_code = 500, is_success = False, body = PDict [], raw_headers = []\<rparr>"
  let ?empty = "\<lparr>status_code = 200, is_success = True, body = PDict [], raw_headers = []\<rparr>"
  let ?listing = "\<lparr>status_code = 200, is_success = True,
         body = PDict [(''endpoints'', PList [PDict [(''endpoint'', PStr ''tcp://a:1'')]])],
         raw_headers = []\<rparr>"
  have f: "\<not> is_success ?failed" by simp
  have a: "fst (endpoints_response_handler (Request ''get'' ''/_api/cluster/endpoints'' None None)
             ?failed) =
           Inl (ClusterEndpointsError ?failed (Request ''get'' ''/_api/cluster/endpoints'' None None))"
    using f handlers_outcomes [of ?failed "Request ''get'' ''/_api/cluster/endpoints'' None None"]
    by blast
  have s: "is_success ?empty" and k: "\<not> has_key (body ?empty) ''id''" by simp_all
  have b: "raises_builtin (fst (server_id_response_handler
             (Request ''get'' ''/_admin/server/id'' None None) ?empty))"
    using s k handlers_outcomes [of ?empty "Request ''get'' ''/_admin/server/id'' None None"]
    by presburger
  have c: "fst (server_version_response_handler
             (Request ''get'' ''/_admin/server/id'' None None) ?empty) = Inr (PDict [])"
    using s handlers_outcomes [of ?empty "Request ''get'' ''/_admin/server/id'' None None"]
    by simp
  have s': "is_success ?listing" and sh: "endpoints_shape (body ?listing)" by simp_all
  have d: "returns (fst (endpoints_response_handler
             (Request ''get'' ''/_api/cluster/endpoints'' None None) ?listing))"
    using s' sh
      handlers_outcomes [of ?listing "Request ''get'' ''/_api/cluster/endpoints'' None None"]
    by blast
  from a b c d show ?thesis by blast
qed

text \<open>
  The claim as the spec states it fails: given a successful answer whose body is the
  empty mapping, the server_id handler raises \<open>KeyError('id')\<close>, which is neither a
  returned value nor \<open>ClusterServerIDError\<close>.
\<close>

theorem server_id_missing_key_raises_KeyError:
  "fst (server_id_response_handler (Request ''get'' ''/_admin/server/id'' None None)
      \<lparr>status_code = 200, is_success = True, body = PDict [], raw_headers = []\<rparr>) =
     Inl (KeyError ''id'')
   \<and> \<not> returns (Inl (KeyError ''id''))
   \<and> KeyError ''id'' \<noteq>
       ClusterServerIDError
         \<lparr>status_code = 200, is_success = True, body = PDict [], raw_headers = []\<rparr>
         (Request ''get'' ''/_admin/server/id'' None None)"
  by (simp add: server_id_response_handler_def)

section \<open>One request, one call\<close>

lemmas async_defs =
  server_id_async_def server_role_async_def server_version_async_def
  server_engine_async_def server_statistics_async_def health_async_def
  toggle_maintenance_mode_async_def endpoints_async_def

lemma logging_step:
  "logging ex request handler (calls, w) =
     (fst (ex request handler w), calls @ [request], snd (ex request handler w))"
  by (simp add: logging_def split: prod.splits)

text \<open>
  C9. Whatever the executor and whatever its state, each method is one step of the
  executor, on the one Request the method builds and the one handler it defines: the
  method returns the answer of that step as it is and leaves the executor in the state
  that step left. Under the counting executor the list of calls has grown by exactly
  that one request when the method returns, so no method calls a second time, retries
  or loops.
\<close>

theorem one_execute_call:
  "server_id_async ex w =
     ex (Request ''get'' ''/_admin/server/id'' None None)
        (server_id_response_handler
          (Request ''get'' ''/_admin/server/id'' None None)) w
   \<and> server_id_async (logging ex) (calls, w) =
     (fst (server_id_async ex w),
      calls @ [Request ''get'' ''/_admin/server/id'' None None],
      snd (server_id_async ex w))
   \<and> server_role_async ex w =
     ex (Request ''get'' ''/_admin/server/role'' None None)
        (server_role_response_handler
          (Request ''get'' ''/_admin/server/role'' None None)) w
   \<and> server_role_async (logging ex) (calls, w) =
     (fst (server_role_async ex w),
      calls @ [Request ''get'' ''/_admin/server/role'' None None],
      snd (server_role_async ex w))
   \<and> server_version_async ex sid w =
     ex (Request ''get'' ''/_admin/cluster/nodeVersion'' (Some [(''ServerID'', PStr sid)]) None)
        (server_version_response_handler
          (Request ''get'' ''/_admin/cluster/nodeVersion'' (Some [(''ServerID'', PStr sid)]) None)) w
   \<and> server_version_async (logging ex) sid (calls, w) =
     (fst (server_version_async ex sid w),
      calls @ [Request ''get'' ''/_admin/cluster/nodeVersion'' (Some [(''ServerID'', PStr sid)]) None],
      snd (server_version_async ex sid w))
   \<and> server_engine_async ex sid w =
     ex (Request ''get'' ''/_admin/cluster/nodeEngine'' (Some [(''ServerID'', PStr sid)]) None)
        (server_engine_response_handler
          (Request ''get'' ''/_admin/cluster/nodeEngine'' (Some [(''ServerID'', PStr sid)]) None)) w
   \<and> server_engine_async (logging ex) sid (calls, w) =
     (fst (server_engine_async ex sid w),
      calls @ [Request ''get'' ''/_admin/cluster/nodeEngine'' (Some [(''ServerID'', PStr sid)]) None],
      snd (server_engine_async ex sid w))
   \<and> server_statistics_async ex sid w =
     ex (Request ''get'' ''/_admin/cluster/nodeStatistics'' (Some [(''ServerID'', PStr sid)]) None)
        (server_statistics_response_handler
          (Request ''get'' ''/_admin/cluster/nodeStatistics'' (Some [(''ServerID'', PStr sid)]) None)) w
   \<and> server_statistics_async (logging ex) sid (calls, w) =
     (fst (server_statistics_async ex sid w),
      calls @ [Request ''get'' ''/_admin/cluster/nodeStatistics'' (Some [(''ServerID'', PStr sid)]) None],
      snd (server_statistics_async ex sid w))
   \<and> health_async ex w =
     ex (Request ''get'' ''/_admin/cluster/health'' None None)
        (health_response_handler
          (Request ''get'' ''/_admin/cluster/health'' None None)) w
   \<and> health_async (logging ex) (calls, w) =
     (fst (health_async ex w),
      calls @ [Request ''get'' ''/_admin/cluster/health'' None None],
      snd (health_async ex w))
   \<and> toggle_maintenance_mode_async ex mode w =
     ex (Request ''put'' ''/_admin/cluster/maintenance'' None (Some (PStr (format_quoted mode))))
        (toggle_maintenance_mode_response_handler
          (Request ''put'' ''/_admin/cluster/maintenance'' None (Some (PStr (format_quoted mode))))) w
   \<and> toggle_maintenance_mode_async (logging ex) mode (calls, w) =
     (fst (toggle_maintenance_mode_async ex mode w),
      calls @ [Request ''put'' ''/_admin/cluster/maintenance'' None (Some (PStr (format_quoted mode)))],
      snd (toggle_maintenance_mode_async ex mode w))
   \<and> endpoints_async ex w =
     ex (Request ''get'' ''/_api/cluster/endpoints'' None None)
        (endpoints_response_handler
          (Request ''get'' ''/_api/cluster/endpoints'' None None)) w
   \<and> endpoints_async (logging ex) (calls, w) =
     (fst (endpoints_async ex w),
      calls @ [Request ''get'' ''/_api/cluster/endpoints'' None None],
      snd (endpoints_async ex w))"
proof -
  have one_step:
    "server_id_async e v =
       e (Request ''get'' ''/_admin/server/id'' None None)
         (server_id_response_handler
           (Request ''get'' ''/_admin/server/id'' None None)) v"
    "server_role_async e v =
       e (Request ''get'' ''/_admin/server/role'' None None)
         (server_role_response_handler
           (Request ''get'' ''/_admin/server/role'' None None)) v"
    "server_version_async e sid v =
       e (Request ''get'' ''/_admin/cluster/nodeVersion'' (Some [(''ServerID'', PStr sid)]) None)
         (server_version_response_handler
           (Request ''get'' ''/_admin/cluster/nodeVersion'' (Some [(''ServerID'', PStr sid)]) None)) v"
    "server_engine_async e sid v =
       e (Request ''get'' ''/_admin/cluster/nodeEngine'' (Some [(''ServerID'', PStr sid)]) None)
         (server_engine_response_handler
           (Request ''get'' ''/_admin/cluster/nodeEngine'' (Some [(''ServerID'', PStr sid)]) None)) v"
    "server_statistics_async e sid v =
       e (Request ''get'' ''/_admin/cluster/nodeStatistics'' (Some [(''ServerID'', PStr sid)]) None)
         (server_statistics_response_handler
           (Request ''get'' ''/_admin/cluster/nodeStatistics'' (Some [(''ServerID'', PStr sid)]) None)) v"
    "health_async e v =
       e (Request ''get'' ''/_admin/cluster/health'' None None)
         (health_response_handler
           (Request ''get'' ''/_admin/cluster/health'' None None)) v"
    "toggle_maintenance_mode_async e mode v =
       e (Request ''put'' ''/_admin/cluster/maintenance'' None (Some (PStr (format_quoted mode))))
         (toggle_maintenance_mode_response_handler
           (Request ''put'' ''/_admin/cluster/maintenance'' None (Some (PStr (format_quoted mode))))) v"
    "endpoints_async e v =
       e (Request ''get'' ''/_api/cluster/endpoints'' None None)
         (endpoints_response_handler
           (Request ''get'' ''/_api/cluster/endpoints'' None None)) v"
    for e :: "('v, 'r) executor" and v
    by (simp_all add: async_defs Let_def split: prod.splits)
  show ?thesis
    unfolding one_step logging_step by simp
qed

section \<open>The maintenance mode\<close>

text \<open>
  C4, as the code has it. The method does not check its mode: for every str, one of
  \<open>on\<close> and \<open>off\<close> or not, it builds the PUT request to
  \<open>/_admin/cluster/maintenance\<close> whose body is the mode between two double quotes,
  and hands it to the executor.
\<close>

theorem toggle_maintenance_mode_sends_any_mode:
  \<open>toggle_maintenance_mode ex mode =
      ex \<lparr>http_method = ''put'', endpoint = ''/_admin/cluster/maintenance'', params = None,
          headers = None, data = Some (PStr (''"'' @ mode @ ''"''))\<rparr>
         (toggle_maintenance_mode_response_handler
           \<lparr>http_method = ''put'', endpoint = ''/_admin/cluster/maintenance'', params = None,
            headers = None, data = Some (PStr (''"'' @ mode @ ''"''))\<rparr>)
   \<and> snd (toggle_maintenance_mode (recording ex) mode log) =
      log @ [\<lparr>http_method = ''put'', endpoint = ''/_admin/cluster/maintenance'',
               params = None, headers = None,
               data = Some (PStr (''"'' @ mode @ ''"''))\<rparr>]\<close>
proof -
  have request:
    \<open>Request ''put'' ''/_admin/cluster/maintenance'' None (Some (PStr (format_quoted mode))) =
       \<lparr>http_method = ''put'', endpoint = ''/_admin/cluster/maintenance'', params = None,
        headers = None, data = Some (PStr (''"'' @ mode @ ''"''))\<rparr>\<close>
    by (simp add: Request_def format_quoted_def)
  have sent: "toggle_maintenance_mode e mode =
      e (Request ''put'' ''/_admin/cluster/maintenance'' None (Some (PStr (format_quoted mode))))
        (toggle_maintenance_mode_response_handler
          (Request ''put'' ''/_admin/cluster/maintenance'' None
             (Some (PStr (format_quoted mode)))))" for e :: "request \<Rightarrow> handler \<Rightarrow> 'b"
    by (simp add: toggle_maintenance_mode_def Let_def)
  have "snd (toggle_maintenance_mode (recording ex) mode log) =
      log @ [Request ''put'' ''/_admin/cluster/maintenance'' None
               (Some (PStr (format_quoted mode)))]"
    by (simp add: toggle_maintenance_mode_def Let_def recording_def)
  with sent [of ex] show ?thesis
    unfolding request by simp
qed

text \<open>
  The claim as the spec states it fails: the mode \<open>banana\<close> is neither \<open>on\<close> nor
  \<open>off\<close>, and the executor is handed the request all the same.
\<close>

theorem toggle_maintenance_mode_banana_is_sent:
  \<open>''banana'' \<noteq> ''on'' \<and> ''banana'' \<noteq> ''off''
   \<and> toggle_maintenance_mode (recording sent_request) ''banana'' [] =
      (\<lparr>http_method = ''put'', endpoint = ''/_admin/cluster/maintenance'', params = None,
        headers = None, data = Some (PStr ''"banana"'')\<rparr>,
       [\<lparr>http_method = ''put'', endpoint = ''/_admin/cluster/maintenance'', params = None,
         headers = None, data = Some (PStr ''"banana"'')\<rparr>])\<close>
  by (simp add: toggle_maintenance_mode_def recording_def sent_request_def format_quoted_def
      Request_def Let_def)

text \<open>
  C6, as the code has it. For the mode \<open>on\<close> the method builds one request: PUT,
  \<open>/_admin/cluster/maintenance\<close>, with the body \<open>"on"\<close>, which is four characters,
  the two double quotes among them. Against a Response with \<open>is_success\<close> false it
  raises \<open>ClusterMaintenanceModeError\<close>.
\<close>

theorem toggle_maintenance_mode_on:
  \<open>toggle_maintenance_mode ex ''on'' =
      ex \<lparr>http_method = ''put'', endpoint = ''/_admin/cluster/maintenance'', params = None,
          headers = None, data = Some (PStr [CHR 0x22, CHR ''o'', CHR ''n'', CHR 0x22])\<rparr>
         (toggle_maintenance_mode_response_handler
           \<lparr>http_method = ''put'', endpoint = ''/_admin/cluster/maintenance'', params = None,
            headers = None, data = Some (PStr [CHR 0x22, CHR ''o'', CHR ''n'', CHR 0x22])\<rparr>)
   \<and> snd (toggle_maintenance_mode (recording ex) ''on'' []) =
      [\<lparr>http_method = ''put'', endpoint = ''/_admin/cluster/maintenance'', params = None,
        headers = None, data = Some (PStr [CHR 0x22, CHR ''o'', CHR ''n'', CHR 0x22])\<rparr>]
   \<and> data (toggle_maintenance_mode sent_request ''on'') = Some (PStr ''"on"'')
   \<and> length (format_quoted ''on'') = 4
   \<and> (\<not> is_success resp \<longrightarrow>
        toggle_maintenance_mode (execute_against resp) ''on'' =
          Inl (ClusterMaintenanceModeError resp
                \<lparr>http_method = ''put'', endpoint = ''/_admin/cluster/maintenance'',
                 params = None, headers = None,
                 data = Some (PStr [CHR 0x22, CHR ''o'', CHR ''n'', CHR 0x22])\<rparr>))\<close>
  by (simp add: toggle_maintenance_mode_def recording_def sent_request_def format_quoted_def
      Request_def Let_def execute_against_def failure_outcome)

text \<open>The theorem at a 400 answer.\<close>

theorem toggle_maintenance_mode_on_witness:
  \<open>toggle_maintenance_mode
      (execute_against
        \<lparr>status_code = 400, is_success = False, body = PDict [(''error'', PBool True)],
         raw_headers = []\<rparr>) ''on'' =
     Inl (ClusterMaintenanceModeError
           \<lparr>status_code = 400, is_success = False, body = PDict [(''error'', PBool True)],
            raw_headers = []\<rparr>
           \<lparr>http_method = ''put'', endpoint = ''/_admin/cluster/maintenance'',
            params = None, headers = None, data = Some (PStr ''"on"'')\<rparr>)\<close>
proof -
  have failed:
    "\<not> is_success \<lparr>status_code = 400, is_success = False,
                      body = PDict [(''error'', PBool True)], raw_headers = []\<rparr>"
    by simp
  with toggle_maintenance_mode_on
    [of sent_request "\<lparr>status_code = 400, is_success = False,
            body = PDict [(''error'', PBool True)], raw_headers = []\<rparr>"]
  show ?thesis by simp
qed

text \<open>
  The claim as the spec states it fails in its count: the body sent for the mode
  \<open>on\<close> is the double quote, \<open>o\<close>, \<open>n\<close> and the double quote, four characters and
  not five.
\<close>

theorem maintenance_body_for_on_is_four_characters:
  \<open>data (toggle_maintenance_mode sent_request ''on'') =
      Some (PStr [CHR 0x22, CHR ''o'', CHR ''n'', CHR 0x22])
   \<and> length [CHR 0x22, CHR ''o'', CHR ''n'', CHR 0x22] \<noteq> 5\<close>
  by (simp add: toggle_maintenance_mode_def sent_request_def format_quoted_def Request_def
      Let_def)

section \<open>Successful answers\<close>

lemma strip_bookkeeping_lookup:
  "map_of (strip_bookkeeping kvs) ''error'' = None"
  "map_of (strip_bookkeeping kvs) ''code'' = None"
  "key \<noteq> ''error'' \<Longrightarrow> key \<noteq> ''code'' \<Longrightarrow> map_of (strip_bookkeeping kvs) key = map_of kvs key"
  by (induction kvs) (auto simp: strip_bookkeeping_def)

lemma health_returns_stripped:
  assumes "is_success resp" and "body resp = PDict kvs"
    and "map_of kvs ''error'' \<noteq> None" and "map_of kvs ''code'' \<noteq> None"
  shows "fst (health_response_handler req resp) = Inr (PDict (strip_bookkeeping kvs))"
proof -
  have code: "map_of (filter (\<lambda>kv. fst kv \<noteq> ''error'') kvs) ''code'' = map_of kvs ''code''"
    by (rule map_of_filter_other) simp
  from assms show ?thesis
    by (auto simp: health_response_handler_def code strip_bookkeeping_def)
qed

text \<open>
  C5. Against a successful answer whose body is a mapping holding \<open>'error'\<close> and
  \<open>'code'\<close>, \<open>health()\<close> returns that mapping without these two keys and with every
  other key bound as before; for the body \<open>{error: false, code: 200, Node1: n}\<close> that
  is \<open>{Node1: n}\<close>, whatever \<open>n\<close> is.
\<close>

theorem health_strips_error_and_code:
  assumes "is_success resp" and "body resp = PDict kvs"
    and "map_of kvs ''error'' \<noteq> None" and "map_of kvs ''code'' \<noteq> None"
  shows "health (execute_against resp) = Inr (PDict (strip_bookkeeping kvs))
         \<and> map_of (strip_bookkeeping kvs) ''error'' = None
         \<and> map_of (strip_bookkeeping kvs) ''code'' = None
         \<and> (\<forall>key. key \<noteq> ''error'' \<and> key \<noteq> ''code'' \<longrightarrow>
               map_of (strip_bookkeeping kvs) key = map_of kvs key)
         \<and> (kvs = [(''error'', PBool False), (''code'', PInt 200), (''Node1'', node1)] \<longrightarrow>
               health (execute_against resp) = Inr (PDict [(''Node1'', node1)]))"
proof -
  have h: "health (execute_against resp) = Inr (PDict (strip_bookkeeping kvs))"
    using health_returns_stripped [OF assms] by (simp add: health_def execute_against_def)
  have scenario:
    "kvs = [(''error'', PBool False), (''code'', PInt 200), (''Node1'', node1)] \<longrightarrow>
       strip_bookkeeping kvs = [(''Node1'', node1)]"
    by (simp add: strip_bookkeeping_def)
  from h scenario show ?thesis by (simp add: strip_bookkeeping_lookup)
qed

text \<open>The theorem at the scenario of the spec, with one node of status \<open>GOOD\<close>.\<close>

theorem health_strips_error_and_code_witness:
  "health (execute_against
     \<lparr>status_code = 200, is_success = True,
      body = PDict [(''error'', PBool False), (''code'', PInt 200),
                    (''Node1'', PDict [(''Status'', PStr ''GOOD'')])],
      raw_headers = []\<rparr>) =
   Inr (PDict [(''Node1'', PDict [(''Status'', PStr ''GOOD'')])])"
proof -
  let ?kvs = "[(''error'', PBool False), (''code'', PInt 200),
               (''Node1'', PDict [(''Status'', PStr ''GOOD'')])]"
  let ?resp = "\<lparr>status_code = 200, is_success = True, body = PDict ?kvs, raw_headers = []\<rparr>"
  have a: "is_success ?resp" and b: "body ?resp = PDict ?kvs"
    and c: "map_of ?kvs ''error'' \<noteq> None" and d: "map_of ?kvs ''code'' \<noteq> None"
    by simp_all
  from health_strips_error_and_code [OF a b c d, of "PDict [(''Status'', PStr ''GOOD'')]"]
  show ?thesis by (simp add: strip_bookkeeping_def)
qed

lemma subscript_each_dicts:
  "map (\<lambda>d. map_of d key) ds = map Some vs \<Longrightarrow>
     subscript_each (map PDict ds) key = Inr vs"
proof (induction ds arbitrary: vs)
  case Nil
  then show ?case by simp
next
  case (Cons d ds)
  then obtain v vs' where vs: "vs = v # vs'" by (cases vs) auto
  with Cons.prems have "map_of d key = Some v" and "map (\<lambda>d. map_of d key) ds = map Some vs'"
    by simp_all
  with Cons.IH [of vs'] vs show ?case by simp
qed

text \<open>
  C7. Against a successful answer whose body maps \<open>'endpoints'\<close> to a list of
  mappings, the i-th of which binds \<open>'endpoint'\<close> to the i-th of the values \<open>vs\<close>,
  \<open>endpoints()\<close> returns the list \<open>vs\<close>, in that order.
\<close>

theorem endpoints_projects_in_order:
  assumes "is_success resp" and "body resp = PDict kvs"
    and "map_of kvs ''endpoints'' = Some (PList (map PDict ds))"
    and "map (\<lambda>d. map_of d ''endpoint'') ds = map Some vs"
  shows "endpoints (execute_against resp) = Inr (PList vs)"
  using assms(1-3) subscript_each_dicts [OF assms(4)]
  by (simp add: endpoints_def execute_against_def endpoints_response_handler_def)

text \<open>The theorem at the scenario of the spec: two endpoints, returned in their order.\<close>

theorem endpoints_projects_in_order_witness:
  "endpoints (execute_against
     \<lparr>status_code = 200, is_success = True,
      body = PDict [(''endpoints'',
               PList [PDict [(''endpoint'', PStr ''tcp://a:1'')],
                      PDict [(''endpoint'', PStr ''tcp://b:2'')]])],
      raw_headers = []\<rparr>) =
   Inr (PList [PStr ''tcp://a:1'', PStr ''tcp://b:2''])"
proof -
  let ?ds = "[[(''endpoint'', PStr ''tcp://a:1'')], [(''endpoint'', PStr ''tcp://b:2'')]]"
  let ?kvs = "[(''endpoints'', PList (map PDict ?ds))]"
  let ?resp = "\<lparr>status_code = 200, is_success = True, body = PDict ?kvs, raw_headers = []\<rparr>"
  have a: "is_success ?resp" and b: "body ?resp = PDict ?kvs"
    and c: "map_of ?kvs ''endpoints'' = Some (PList (map PDict ?ds))"
    and d: "map (\<lambda>d. map_of d ''endpoint'') ?ds = map Some [PStr ''tcp://a:1'', PStr ''tcp://b:2'']"
    by simp_all
  from endpoints_projects_in_order [OF a b c d] show ?thesis by simp
qed

text \<open>
  C8. Against a successful answer whose body maps \<open>'id'\<close> to a str, \<open>server_id()\<close>
  returns that str.
\<close>

theorem server_id_returns_id:
  assumes "is_success resp" and "body resp = PDict kvs"
    and "map_of kvs ''id'' = Some (PStr s)"
  shows "server_id (execute_against resp) = Inr (PStr s)"
  using assms by (simp add: server_id_def execute_against_def server_id_response_handler_def)

text \<open>The theorem at the scenario of the spec: the body \<open>{id: "node-1"}\<close>.\<close>

theorem server_id_returns_id_witness:
  "server_id (execute_against
     \<lparr>status_code = 200, is_success = True, body = PDict [(''id'', PStr ''node-1'')],
      raw_headers = []\<rparr>) = Inr (PStr ''node-1'')"
proof -
  let ?kvs = "[(''id'', PStr ''node-1'')]"
  let ?resp = "\<lparr>status_code = 200, is_success = True, body = PDict ?kvs, raw_headers = []\<rparr>"
  have a: "is_success ?resp" and b: "body ?resp = PDict ?kvs"
    and c: "map_of ?kvs ''id'' = Some (PStr ''node-1'')"
    by simp_all
  from server_id_returns_id [OF a b c] show ?thesis .
qed

text \<open>
  C10. For every str \<open>sid\<close>, server_version, server_engine and server_statistics
  each send a GET request whose params are the one binding of \<open>'ServerID'\<close> to \<open>sid\<close>
  as it was given, to \<open>/_admin/cluster/nodeVersion\<close>, \<open>/_admin/cluster/nodeEngine\<close>
  and \<open>/_admin/cluster/nodeStatistics\<close>; against a successful answer each returns the
  whole body, whatever it is.
\<close>

theorem server_queries_pass_through:
  "server_version sent_request sid =
     \<lparr>http_method = ''get'', endpoint = ''/_admin/cluster/nodeVersion'',
      params = Some [(''ServerID'', PStr sid)], headers = None, data = None\<rparr>
   \<and> server_engine sent_request sid =
     \<lparr>http_method = ''get'', endpoint = ''/_admin/cluster/nodeEngine'',
      params = Some [(''ServerID'', PStr sid)], headers = None, data = None\<rparr>
   \<and> server_statistics sent_request sid =
     \<lparr>http_method = ''get'', endpoint = ''/_admin/cluster/nodeStatistics'',
      params = Some [(''ServerID'', PStr sid)], headers = None, data = None\<rparr>
   \<and> snd (server_version (recording ex) sid []) =
     [\<lparr>http_method = ''get'', endpoint = ''/_admin/cluster/nodeVersion'',
       params = Some [(''ServerID'', PStr sid)], headers = None, data = None\<rparr>]
   \<and> snd (server_engine (recording ex) sid []) =
     [\<lparr>http_method = ''get'', endpoint = ''/_admin/cluster/nodeEngine'',
       params = Some [(''ServerID'', PStr sid)], headers = None, data = None\<rparr>]
   \<and> snd (server_statistics (recording ex) sid []) =
     [\<lparr>http_method = ''get'', endpoint = ''/_admin/cluster/nodeStatistics'',
       params = Some [(''ServerID'', PStr sid)], headers = None, data = None\<rparr>]
   \<and> (is_success resp \<longrightarrow>
        server_version (execute_against resp) sid = Inr (body resp)
        \<and> server_engine (execute_against resp) sid = Inr (body resp)
        \<and> server_statistics (execute_against resp) sid = Inr (body resp))"
  by (simp add: server_version_def server_engine_def server_statistics_def sent_request_def
      recording_def Request_def Let_def execute_against_def passthrough_outcome)

text \<open>The theorem at a successful answer, for the server id \<open>PRMR-1\<close>.\<close>

theorem server_queries_pass_through_witness:
  "server_version (execute_against
     \<lparr>status_code = 200, is_success = True,
      body = PDict [(''server'', PStr ''arango''), (''version'', PStr ''3.7.2'')],
      raw_headers = []\<rparr>) ''PRMR-1'' =
     Inr (PDict [(''server'', PStr ''arango''), (''version'', PStr ''3.7.2'')])
   \<and> server_engine (execute_against
     \<lparr>status_code = 200, is_success = True,
      body = PDict [(''server'', PStr ''arango''), (''version'', PStr ''3.7.2'')],
      raw_headers = []\<rparr>) ''PRMR-1'' =
     Inr (PDict [(''server'', PStr ''arango''), (''version'', PStr ''3.7.2'')])
   \<and> server_statistics (execute_against
     \<lparr>status_code = 200, is_success = True,
      body = PDict [(''server'', PStr ''arango''), (''version'', PStr ''3.7.2'')],
      raw_headers = []\<rparr>) ''PRMR-1'' =
     Inr (PDict [(''server'', PStr ''arango''), (''version'', PStr ''3.7.2'')])"
proof -
  let ?resp = "\<lparr>status_code = 200, is_success = True,
      body = PDict [(''server'', PStr ''arango''), (''version'', PStr ''3.7.2'')],
      raw_headers = []\<rparr>"
  have ok: "is_success ?resp" by simp
  with server_queries_pass_through [of "''PRMR-1''" sent_request ?resp]
  show ?thesis by simp
qed

end
